theory Spec2Isabelle
  imports Complex_Main
begin

section \<open>Doubles\<close>

text \<open>
  The C++ sources compute with \<^verbatim>\<open>double\<close>. A double is modelled as a real number, one of
  the two infinities, or not-a-number. Arithmetic on numbers is exact: rounding, overflow and
  underflow are outside the model, and there is one zero, which divides like \<^verbatim>\<open>+0.0\<close>.
  What IEEE 754 prescribes for the special values (division by zero, \<^verbatim>\<open>0 * inf\<close>,
  \<^verbatim>\<open>inf - inf\<close>, comparisons with not-a-number) is written out, because the drivers reach
  these cases: an empty cylinder makes them divide zero by zero. The sign of a zero divisor
  does not show in these sources: a quotient by the height or the radius goes through
  \<^verbatim>\<open>std::abs\<close> or is squared, and a weight sum starts from \<^verbatim>\<open>+0.0\<close>.

  The program rounds every sum, product, quotient, square, square root and exponential to
  binary64, and can overflow to an infinity or underflow to zero; the model does none of
  this. What is proved here about the control flow (which rows are read, when a loop
  repeats, how often, what is stored where) and about the special values carries over to
  the program. What is proved about the value of a number is a statement of exact
  arithmetic, and carries over only where the program's operations happen to be exact.
\<close>

datatype double = Val real | PInf | NInf | NaN

fun dadd :: "double \<Rightarrow> double \<Rightarrow> double" where
  "dadd (Val a) (Val b) = Val (a + b)"
| "dadd NaN _ = NaN"
| "dadd _ NaN = NaN"
| "dadd PInf NInf = NaN"
| "dadd NInf PInf = NaN"
| "dadd PInf _ = PInf"
| "dadd _ PInf = PInf"
| "dadd NInf _ = NInf"
| "dadd _ NInf = NInf"

fun dsub :: "double \<Rightarrow> double \<Rightarrow> double" where
  "dsub (Val a) (Val b) = Val (a - b)"
| "dsub NaN _ = NaN"
| "dsub _ NaN = NaN"
| "dsub PInf PInf = NaN"
| "dsub NInf NInf = NaN"
| "dsub PInf _ = PInf"
| "dsub _ NInf = PInf"
| "dsub NInf _ = NInf"
| "dsub _ PInf = NInf"

definition signedInf :: "bool \<Rightarrow> double" where
  "signedInf positive = (if positive then PInf else NInf)"

fun dmul :: "double \<Rightarrow> double \<Rightarrow> double" where
  "dmul (Val a) (Val b) = Val (a * b)"
| "dmul NaN _ = NaN"
| "dmul _ NaN = NaN"
| "dmul (Val a) PInf = (if a = 0 then NaN else signedInf (0 < a))"
| "dmul (Val a) NInf = (if a = 0 then NaN else signedInf (a < 0))"
| "dmul PInf (Val b) = (if b = 0 then NaN else signedInf (0 < b))"
| "dmul NInf (Val b) = (if b = 0 then NaN else signedInf (b < 0))"
| "dmul PInf PInf = PInf"
| "dmul NInf NInf = PInf"
| "dmul PInf NInf = NInf"
| "dmul NInf PInf = NInf"

fun ddiv :: "double \<Rightarrow> double \<Rightarrow> double" where
  "ddiv (Val a) (Val b) =
     (if b = 0 then (if a = 0 then NaN else signedInf (0 < a)) else Val (a / b))"
| "ddiv NaN _ = NaN"
| "ddiv _ NaN = NaN"
| "ddiv (Val a) PInf = Val 0"
| "ddiv (Val a) NInf = Val 0"
| "ddiv PInf (Val b) = signedInf (0 \<le> b)"
| "ddiv NInf (Val b) = signedInf (b < 0)"
| "ddiv PInf PInf = NaN"
| "ddiv PInf NInf = NaN"
| "ddiv NInf PInf = NaN"
| "ddiv NInf NInf = NaN"

text \<open>\<^verbatim>\<open>std::pow(x, 2.0)\<close>, \<^verbatim>\<open>std::abs\<close>, \<^verbatim>\<open>std::hypot\<close>, \<^verbatim>\<open>std::exp\<close>, \<^verbatim>\<open>std::sqrt\<close>.\<close>

fun dpow2 :: "double \<Rightarrow> double" where
  "dpow2 (Val a) = Val (a\<^sup>2)"
| "dpow2 NaN = NaN"
| "dpow2 _ = PInf"

fun dabs :: "double \<Rightarrow> double" where
  "dabs (Val a) = Val \<bar>a\<bar>"
| "dabs NaN = NaN"
| "dabs _ = PInf"

fun isInf :: "double \<Rightarrow> bool" where
  "isInf PInf = True"
| "isInf NInf = True"
| "isInf _ = False"

fun dhypot :: "double \<Rightarrow> double \<Rightarrow> double" where
  "dhypot (Val a) (Val b) = Val (sqrt (a\<^sup>2 + b\<^sup>2))"
| "dhypot a b = (if isInf a \<or> isInf b then PInf else NaN)"

fun dexp :: "double \<Rightarrow> double" where
  "dexp (Val a) = Val (exp a)"
| "dexp PInf = PInf"
| "dexp NInf = Val 0"
| "dexp NaN = NaN"

fun dsqrt :: "double \<Rightarrow> double" where
  "dsqrt (Val a) = (if a < 0 then NaN else Val (sqrt a))"
| "dsqrt PInf = PInf"
| "dsqrt _ = NaN"

text \<open>Comparisons: every comparison with not-a-number is false.\<close>

fun dless :: "double \<Rightarrow> double \<Rightarrow> bool" where
  "dless (Val a) (Val b) = (a < b)"
| "dless NaN _ = False"
| "dless _ NaN = False"
| "dless NInf NInf = False"
| "dless NInf _ = True"
| "dless PInf _ = False"
| "dless (Val a) PInf = True"
| "dless (Val a) NInf = False"

fun dle :: "double \<Rightarrow> double \<Rightarrow> bool" where
  "dle (Val a) (Val b) = (a \<le> b)"
| "dle NaN _ = False"
| "dle _ NaN = False"
| "dle NInf _ = True"
| "dle PInf PInf = True"
| "dle PInf _ = False"
| "dle (Val a) PInf = True"
| "dle (Val a) NInf = False"

definition dgt :: "double \<Rightarrow> double \<Rightarrow> bool" where
  "dgt a b = dless b a"

definition dge :: "double \<Rightarrow> double \<Rightarrow> bool" where
  "dge a b = dle b a"

text \<open>\<^verbatim>\<open>std::min(a, b)\<close> is \<^verbatim>\<open>(b < a) ? b : a\<close>.\<close>

definition dmin :: "double \<Rightarrow> double \<Rightarrow> double" where
  "dmin a b = (if dless b a then b else a)"

section \<open>LittleFunctionsCollection.cpp\<close>

definition InCylinder ::
  "double \<Rightarrow> double \<Rightarrow> double \<Rightarrow> double \<Rightarrow> double \<Rightarrow> double \<Rightarrow> double \<Rightarrow> double \<Rightarrow> bool" where
  "InCylinder x y z radius height centerX centerY centerZ =
     (dle (dadd (dpow2 (dsub x centerX)) (dpow2 (dsub y centerY))) (dpow2 radius)
      \<and> dge z (dsub centerZ (dmul (Val 0.5) height))
      \<and> dle z (dadd centerZ (dmul (Val 0.5) height)))"

definition VerticalDistance :: "double \<Rightarrow> double \<Rightarrow> double \<Rightarrow> double" where
  "VerticalDistance height centerZ pointZ =
     (let BottomDistance =
            dabs (ddiv (dsub (dsub centerZ (ddiv height (Val 4))) pointZ)
                       (ddiv (dmul height (Val 3)) (Val 8)));
          TopDistance =
            dabs (ddiv (dsub (dadd centerZ (ddiv height (Val 2))) pointZ)
                       (ddiv (dmul height (Val 3)) (Val 8)))
      in dmin BottomDistance TopDistance)"

definition VerticalMask :: "double \<Rightarrow> double \<Rightarrow> double \<Rightarrow> int" where
  "VerticalMask height centerZ pointZ =
     (if dge pointZ (dsub centerZ (ddiv height (Val 4)))
         \<and> dle pointZ (dadd centerZ (ddiv height (Val 2)))
      then 1 else 0)"

definition EpanechnikovFunction :: "double \<Rightarrow> double \<Rightarrow> double \<Rightarrow> double" where
  "EpanechnikovFunction height centerZ pointZ =
     dmul (Val (real_of_int (VerticalMask height centerZ pointZ)))
          (dsub (Val 1) (dpow2 (dsub (Val 1) (VerticalDistance height centerZ pointZ))))"

definition GaussFunction :: "double \<Rightarrow> double \<Rightarrow> double \<Rightarrow> double \<Rightarrow> double \<Rightarrow> double" where
  "GaussFunction radius centerX centerY pointX pointY =
     (let distance = dhypot (dsub pointX centerX) (dsub pointY centerY);
          normDistance = ddiv distance radius
      in dexp (dmul (Val (- 5)) (dpow2 normDistance)))"

section \<open>littleFunctionsImproved.cpp\<close>

definition intersectsCylinder ::
  "double \<Rightarrow> double \<Rightarrow> double \<Rightarrow> double \<Rightarrow> double \<Rightarrow> double \<Rightarrow> double \<Rightarrow> double \<Rightarrow> bool" where
  "intersectsCylinder pointX pointY pointZ cylinderRadius cylinderHeight centerX centerY centerZ =
     (let topHeight = dadd centerZ (dmul (Val 0.5) cylinderHeight);
          bottomHeight = dsub topHeight cylinderHeight
      in dle (dadd (dpow2 (dsub pointX centerX)) (dpow2 (dsub pointY centerY)))
             (dpow2 cylinderRadius)
         \<and> dle bottomHeight pointZ \<and> dle pointZ topHeight)"

definition gauss :: "double \<Rightarrow> double" where
  "gauss x = dexp (dmul (Val (- 5)) (dpow2 x))"

definition epanechnikov :: "double \<Rightarrow> double" where
  "epanechnikov x = dsub (Val 1) (dpow2 x)"

definition calculateVerticalWeight :: "double \<Rightarrow> double \<Rightarrow> double \<Rightarrow> double" where
  "calculateVerticalWeight pointZ cylinderMiddleZ cylinderHeight =
     (let relativeVerticalDistanceToCenter =
            ddiv (dabs (dsub cylinderMiddleZ pointZ)) (dmul cylinderHeight (Val 0.5))
      in epanechnikov relativeVerticalDistanceToCenter)"

definition calculateHorizontalWeight ::
  "double \<Rightarrow> double \<Rightarrow> double \<Rightarrow> double \<Rightarrow> double \<Rightarrow> double" where
  "calculateHorizontalWeight pointX pointY cylinderRadius centerX centerY =
     (let relativeHorizontalDistanceToCenter =
            ddiv (dhypot (dsub centerX pointX) (dsub centerY pointY)) cylinderRadius
      in gauss relativeHorizontalDistanceToCenter)"

section \<open>The point cloud and the result table\<close>

text \<open>
  The \<^verbatim>\<open>NumericMatrix\<close> with three columns is a list of rows; \<^verbatim>\<open>pc(i, 0)\<close>,
  \<^verbatim>\<open>pc(i, 1)\<close> and \<^verbatim>\<open>pc(i, 2)\<close> are \<open>px\<close>, \<open>py\<close> and \<open>pz\<close> of row \<open>i\<close>. The drivers
  only read rows below \<^verbatim>\<open>nrows\<close>.
\<close>

type_synonym point = "double \<times> double \<times> double"

type_synonym accumulator = "double \<times> double \<times> double \<times> double"

type_synonym modes = "double list \<times> double list \<times> double list"

definition px :: "point \<Rightarrow> double" where
  "px p = fst p"

definition py :: "point \<Rightarrow> double" where
  "py p = fst (snd p)"

definition pz :: "point \<Rightarrow> double" where
  "pz p = snd (snd p)"

record DataFrame =
  X :: "double list"
  Y :: "double list"
  Z :: "double list"
  modeX :: "double list"
  modeY :: "double list"
  modeZ :: "double list"

text \<open>\<^verbatim>\<open>NumericVector modesX(nrows)\<close> and its two siblings start filled with zeros.\<close>

definition newModes :: "nat \<Rightarrow> modes" where
  "newModes nrows = (replicate nrows (Val 0), replicate nrows (Val 0), replicate nrows (Val 0))"

text \<open>\<^verbatim>\<open>modesX[i] = centroidX; modesY[i] = centroidY; modesZ[i] = centroidZ;\<close>\<close>

fun storeMode :: "nat \<Rightarrow> point \<Rightarrow> modes \<Rightarrow> modes" where
  "storeMode i (centroidX, centroidY, centroidZ) (modesX, modesY, modesZ) =
     (modesX[i := centroidX], modesY[i := centroidY], modesZ[i := centroidZ])"

fun createDataFrame :: "point list \<Rightarrow> modes \<Rightarrow> DataFrame" where
  "createDataFrame pc (modesX, modesY, modesZ) =
     \<lparr>X = map px pc, Y = map py pc, Z = map pz pc,
      modeX = modesX, modeY = modesY, modeZ = modesZ\<rparr>"

section \<open>The per-seed loop\<close>

text \<open>
  Each driver runs, for every seed, a \<^verbatim>\<open>do { ... } while (moved && counter < max)\<close> loop.
  The body increments the counter first, remembers the centroid as the old one and computes
  the new one; the guard compares the new centroid with the old one. The loop returns the
  last centroid together with the final value of the counter. The counter is a C++
  \<^verbatim>\<open>int\<close>; it never exceeds the larger of 1 and the maximum, so it cannot overflow.
\<close>

function do_while ::
  "(point \<Rightarrow> point) \<Rightarrow> (point \<Rightarrow> point \<Rightarrow> bool) \<Rightarrow> int \<Rightarrow> int \<Rightarrow> point \<Rightarrow> point \<times> int" where
  "do_while body continue maxIter counter old =
     (if continue (body old) old \<and> counter + 1 < maxIter
      then do_while body continue maxIter (counter + 1) (body old)
      else (body old, counter + 1))"
  by pat_completeness auto
termination
  by (relation "measure (\<lambda>(body, continue, maxIter, counter, old). nat (maxIter - counter))")
     auto

declare do_while.simps [simp del]

section \<open>MeanShift\_Classical.cpp\<close>

text \<open>
  One pass of the inner \<^verbatim>\<open>for\<close> loop. The three coordinates it is given are the
  \<^verbatim>\<open>jx, jy, jz\<close> of the source.
\<close>

fun neighbor_Classical :: "bool \<Rightarrow> double \<Rightarrow> double \<Rightarrow> point \<Rightarrow> point \<Rightarrow> accumulator \<Rightarrow> accumulator" where
  "neighbor_Classical UniformKernel radius height (centroidX, centroidY, centroidZ) (jx, jy, jz)
       (sumx, sumy, sumz, sump) =
     (if InCylinder jx jy jz radius height centroidX centroidY centroidZ
      then (if UniformKernel
            then (dadd sumx jx, dadd sumy jy, dadd sumz jz, dadd sump (Val 1))
            else (let verticalweight = EpanechnikovFunction height centroidZ jz;
                      horizontalweight = GaussFunction radius centroidX centroidY jx jy;
                      weight = dmul verticalweight horizontalweight
                  in (dadd sumx (dmul weight jx), dadd sumy (dmul weight jy),
                      dadd sumz (dmul weight jz), dadd sump weight)))
      else (sumx, sumy, sumz, sump))"

text \<open>
  The inner loop runs \<open>j\<close> over all rows, and reads row \<open>i\<close> (the seed's) each time:
  \<^verbatim>\<open>double jx{ pc(i, 0) }; double jy{ pc(i, 1) }; double jz{ pc(i, 2) };\<close>
\<close>

definition scan_Classical :: "point list \<Rightarrow> nat \<Rightarrow> bool \<Rightarrow> double \<Rightarrow> double \<Rightarrow> point \<Rightarrow> accumulator" where
  "scan_Classical pc i UniformKernel radius height centroid =
     fold (\<lambda>j. neighbor_Classical UniformKernel radius height centroid (pc ! i))
          [0..<length pc] (Val 0, Val 0, Val 0, Val 0)"

fun iteration_Classical ::
  "point list \<Rightarrow> nat \<Rightarrow> double \<Rightarrow> double \<Rightarrow> bool \<Rightarrow> point \<Rightarrow> point" where
  "iteration_Classical pc i CD2TH_fac CH2TH_fac UniformKernel (centroidX, centroidY, centroidZ) =
     (let radius = dmul (dmul CD2TH_fac centroidZ) (Val 0.5);
          height = dmul CH2TH_fac centroidZ
      in case scan_Classical pc i UniformKernel radius height (centroidX, centroidY, centroidZ) of
           (sumx, sumy, sumz, sump) \<Rightarrow> (ddiv sumx sump, ddiv sumy sump, ddiv sumz sump))"

fun continue_Classical :: "point \<Rightarrow> point \<Rightarrow> bool" where
  "continue_Classical (centroidX, centroidY, centroidZ) (oldX, oldY, oldZ) =
     (dless (dabs (dsub centroidX oldX)) (Val 0.01)
      \<and> dless (dabs (dsub centroidY oldY)) (Val 0.01)
      \<and> dless (dabs (dsub centroidZ oldZ)) (Val 0.01))"

definition seed_Classical ::
  "point list \<Rightarrow> double \<Rightarrow> double \<Rightarrow> int \<Rightarrow> bool \<Rightarrow> nat \<Rightarrow> point \<times> int" where
  "seed_Classical pc CD2TH_fac CH2TH_fac MaxIter UniformKernel i =
     do_while (iteration_Classical pc i CD2TH_fac CH2TH_fac UniformKernel) continue_Classical
       MaxIter 0 (pc ! i)"

definition MeanShift_Classical ::
  "point list \<Rightarrow> double \<Rightarrow> double \<Rightarrow> int \<Rightarrow> bool \<Rightarrow> DataFrame" where
  "MeanShift_Classical pc CD2TH_fac CH2TH_fac MaxIter UniformKernel =
     (let nrows = length pc
      in createDataFrame pc
           (fold (\<lambda>i. storeMode i (fst (seed_Classical pc CD2TH_fac CH2TH_fac MaxIter UniformKernel i)))
                 [0..<nrows] (newModes nrows)))"

section \<open>meanShiftClassic.cpp\<close>

fun neighbor_Classic :: "double \<Rightarrow> double \<Rightarrow> point \<Rightarrow> point \<Rightarrow> accumulator \<Rightarrow> accumulator" where
  "neighbor_Classic radius height (centroidX, centroidY, centroidZ) (pointX, pointY, pointZ)
       (sumX, sumY, sumZ, sumP) =
     (if InCylinder pointX pointY pointZ radius height centroidX centroidY centroidZ
      then (let verticalWeight = EpanechnikovFunction height centroidZ pointZ;
                horizontalWeight = GaussFunction radius centroidX centroidY pointX pointY;
                weight = dmul verticalWeight horizontalWeight
            in (dadd sumX (dmul weight pointX), dadd sumY (dmul weight pointY),
                dadd sumZ (dmul weight pointZ), dadd sumP weight))
      else (sumX, sumY, sumZ, sumP))"

definition scan_Classic :: "point list \<Rightarrow> double \<Rightarrow> double \<Rightarrow> point \<Rightarrow> accumulator" where
  "scan_Classic pointCloud radius height centroid =
     fold (\<lambda>j. neighbor_Classic radius height centroid (pointCloud ! j))
          [0..<length pointCloud] (Val 0, Val 0, Val 0, Val 0)"

fun iteration_Classic :: "point list \<Rightarrow> double \<Rightarrow> double \<Rightarrow> point \<Rightarrow> point" where
  "iteration_Classic pointCloud crownDiameter2TreeHeight crownHeight2TreeHeight
       (centroidX, centroidY, centroidZ) =
     (let radius = dmul (dmul crownDiameter2TreeHeight centroidZ) (Val 0.5);
          height = dmul crownHeight2TreeHeight centroidZ
      in case scan_Classic pointCloud radius height (centroidX, centroidY, centroidZ) of
           (sumX, sumY, sumZ, sumP) \<Rightarrow> (ddiv sumX sumP, ddiv sumY sumP, ddiv sumZ sumP))"

text \<open>The guard of \<^verbatim>\<open>meanShiftClassic\<close>, which \<^verbatim>\<open>meanShiftClassicImproved\<close> repeats.\<close>

fun displacement :: "point \<Rightarrow> point \<Rightarrow> double" where
  "displacement (centroidX, centroidY, centroidZ) (oldX, oldY, oldZ) =
     dsqrt (dadd (dadd (dpow2 (dsub centroidX oldX)) (dpow2 (dsub centroidY oldY)))
                 (dpow2 (dsub centroidZ oldZ)))"

definition continue_Euclidean :: "point \<Rightarrow> point \<Rightarrow> bool" where
  "continue_Euclidean centroid old = dgt (displacement centroid old) (Val 0.01)"

definition seed_Classic :: "point list \<Rightarrow> double \<Rightarrow> double \<Rightarrow> int \<Rightarrow> nat \<Rightarrow> point \<times> int" where
  "seed_Classic pointCloud crownDiameter2TreeHeight crownHeight2TreeHeight maxNumCentroidsPerMode i =
     do_while (iteration_Classic pointCloud crownDiameter2TreeHeight crownHeight2TreeHeight)
       continue_Euclidean maxNumCentroidsPerMode 0 (pointCloud ! i)"

definition meanShiftClassic :: "point list \<Rightarrow> double \<Rightarrow> double \<Rightarrow> int \<Rightarrow> DataFrame" where
  "meanShiftClassic pointCloud crownDiameter2TreeHeight crownHeight2TreeHeight
       maxNumCentroidsPerMode =
     (let nrows = length pointCloud
      in createDataFrame pointCloud
           (fold (\<lambda>i. storeMode i (fst (seed_Classic pointCloud crownDiameter2TreeHeight
                                           crownHeight2TreeHeight maxNumCentroidsPerMode i)))
                 [0..<nrows] (newModes nrows)))"

section \<open>meanShiftClassicImproved.cpp\<close>

fun neighbor_Improved :: "double \<Rightarrow> double \<Rightarrow> double \<Rightarrow> point \<Rightarrow> point \<Rightarrow> accumulator \<Rightarrow> accumulator" where
  "neighbor_Improved cylinderRadius cylinderHeight cylinderMiddleZ (centroidX, centroidY, centroidZ)
       (neighborX, neighborY, neighborZ) (sumX, sumY, sumZ, sumWeights) =
     (if intersectsCylinder neighborX neighborY neighborZ cylinderRadius cylinderHeight
           centroidX centroidY cylinderMiddleZ
      then (let verticalweight = calculateVerticalWeight neighborZ cylinderMiddleZ cylinderHeight;
                horizontalweight =
                  calculateHorizontalWeight neighborX neighborY cylinderRadius centroidX centroidY;
                weight = dmul verticalweight horizontalweight
            in (dadd sumX (dmul weight neighborX), dadd sumY (dmul weight neighborY),
                dadd sumZ (dmul weight neighborZ), dadd sumWeights weight))
      else (sumX, sumY, sumZ, sumWeights))"

definition scan_Improved :: "point list \<Rightarrow> double \<Rightarrow> double \<Rightarrow> double \<Rightarrow> point \<Rightarrow> accumulator" where
  "scan_Improved pointCloud cylinderRadius cylinderHeight cylinderMiddleZ centroid =
     fold (\<lambda>j. neighbor_Improved cylinderRadius cylinderHeight cylinderMiddleZ centroid
                 (pointCloud ! j))
          [0..<length pointCloud] (Val 0, Val 0, Val 0, Val 0)"

fun iteration_Improved :: "point list \<Rightarrow> double \<Rightarrow> double \<Rightarrow> point \<Rightarrow> point" where
  "iteration_Improved pointCloud crownDiameter2TreeHeight crownHeight2TreeHeight
       (centroidX, centroidY, centroidZ) =
     (let cylinderRadius = dmul (dmul crownDiameter2TreeHeight centroidZ) (Val 0.5);
          cylinderHeight = dmul (dmul crownHeight2TreeHeight centroidZ) (Val 0.75);
          cylinderMiddleZ = dadd centroidZ (ddiv (dmul cylinderHeight (Val 1)) (Val 6))
      in case scan_Improved pointCloud cylinderRadius cylinderHeight cylinderMiddleZ
                (centroidX, centroidY, centroidZ) of
           (sumX, sumY, sumZ, sumWeights) \<Rightarrow>
             (ddiv sumX sumWeights, ddiv sumY sumWeights, ddiv sumZ sumWeights))"

definition seed_Improved :: "point list \<Rightarrow> double \<Rightarrow> double \<Rightarrow> int \<Rightarrow> nat \<Rightarrow> point \<times> int" where
  "seed_Improved pointCloud crownDiameter2TreeHeight crownHeight2TreeHeight maxNumCentroidsPerMode i =
     do_while (iteration_Improved pointCloud crownDiameter2TreeHeight crownHeight2TreeHeight)
       continue_Euclidean maxNumCentroidsPerMode 0 (pointCloud ! i)"

definition meanShiftClassicImproved :: "point list \<Rightarrow> double \<Rightarrow> double \<Rightarrow> int \<Rightarrow> DataFrame" where
  "meanShiftClassicImproved pointCloud crownDiameter2TreeHeight crownHeight2TreeHeight
       maxNumCentroidsPerMode =
     (let nrows = length pointCloud
      in createDataFrame pointCloud
           (fold (\<lambda>i. storeMode i (fst (seed_Improved pointCloud crownDiameter2TreeHeight
                                           crownHeight2TreeHeight maxNumCentroidsPerMode i)))
                 [0..<nrows] (newModes nrows)))"

section \<open>The scan as the specification words it\<close>

text \<open>
  The specification's step 3: every point of the cloud that lies inside the cylinder adds
  its weight to the weight sum and its weight times each of its own coordinates to the
  three coordinate sums; the other points add nothing. The sums are taken in the order of
  the cloud, starting from zero.
\<close>

definition spec_weightedSums :: "(point \<Rightarrow> bool) \<Rightarrow> (point \<Rightarrow> double) \<Rightarrow> point list \<Rightarrow> accumulator" where
  "spec_weightedSums inside weight cloud =
     (let members = filter inside cloud
      in (foldl dadd (Val 0) (map (\<lambda>p. dmul (weight p) (px p)) members),
          foldl dadd (Val 0) (map (\<lambda>p. dmul (weight p) (py p)) members),
          foldl dadd (Val 0) (map (\<lambda>p. dmul (weight p) (pz p)) members),
          foldl dadd (Val 0) (map weight members)))"

text \<open>A cloud of numbers whose heights are positive.\<close>

fun positiveHeight :: "point \<Rightarrow> bool" where
  "positiveHeight (Val x, Val y, Val z) = (0 < z)"
| "positiveHeight _ = False"

section \<open>The membership test and the two kernels in exact arithmetic\<close>

text \<open>
  The lemmas of this section describe the membership tests and the two kernels of the model,
  whose arithmetic is exact. They are used below at inputs where the program's arithmetic
  is exact too. They do not settle C6, C7 and C8: these are about the values the program
  computes, and the program rounds where the model does not. In binary64 the sum of 1 and
  \<open>2^-60\<close> is 1, so \<^verbatim>\<open>InCylinder\<close> accepts a point at squared distance \<open>1 + 2^-60\<close> from
  the axis of a cylinder of radius 1; \<^verbatim>\<open>intersectsCylinder\<close> takes its lower bound from the
  rounded upper bound; a quarter of a height of \<open>2^-60\<close> is lost when it is added to a
  centre of 10; and the exponential of \<open>-2000\<close> is 0.
\<close>

lemma exact_cylinder_membership:
  "(InCylinder (Val x) (Val y) (Val z) (Val radius) (Val height)
        (Val centerX) (Val centerY) (Val centerZ)
      \<longleftrightarrow> (x - centerX)\<^sup>2 + (y - centerY)\<^sup>2 \<le> radius\<^sup>2
           \<and> centerZ - height / 2 \<le> z \<and> z \<le> centerZ + height / 2)
   \<and> (intersectsCylinder (Val x) (Val y) (Val z) (Val radius) (Val height)
        (Val centerX) (Val centerY) (Val centerZ)
      \<longleftrightarrow> (x - centerX)\<^sup>2 + (y - centerY)\<^sup>2 \<le> radius\<^sup>2
           \<and> centerZ - height / 2 \<le> z \<and> z \<le> centerZ + height / 2)"
  by (auto simp: InCylinder_def intersectsCylinder_def dge_def Let_def)

lemma VerticalDistance_Val:
  assumes "0 < h"
  shows "VerticalDistance (Val h) (Val c) (Val z) =
     Val (min \<bar>(c - h / 4 - z) / (h * 3 / 8)\<bar> \<bar>(c + h / 2 - z) / (h * 3 / 8)\<bar>)"
  using assms by (simp add: VerticalDistance_def Let_def dmin_def min_def)

lemma Epanechnikov_outside:
  assumes "0 < h" "z < c - h / 4 \<or> c + h / 2 < z"
  shows "EpanechnikovFunction (Val h) (Val c) (Val z) = Val 0"
  using assms
  by (auto simp: EpanechnikovFunction_def VerticalMask_def dge_def VerticalDistance_Val)

lemma Epanechnikov_inside:
  assumes "0 < h" "c - h / 4 \<le> z" "z \<le> c + h / 2"
  shows "EpanechnikovFunction (Val h) (Val c) (Val z)
           = Val (1 - ((z - (c + h / 8)) / (3 * h / 8))\<^sup>2)"
proof -
  define u where "u = (z - (c + h / 8)) / (3 * h / 8)"
  have b: "(c - h / 4 - z) / (h * 3 / 8) = - (u + 1)"
    using assms(1) unfolding u_def by (simp add: field_simps)
  have t: "(c + h / 2 - z) / (h * 3 / 8) = 1 - u"
    using assms(1) unfolding u_def by (simp add: field_simps)
  have u1: "- 1 \<le> u" "u \<le> 1"
    using assms unfolding u_def by (simp_all add: field_simps)
  have sq: "(1 - min \<bar>- (u + 1)\<bar> \<bar>1 - u\<bar>)\<^sup>2 = u\<^sup>2"
    using u1 by (auto simp: min_def abs_if power2_eq_square algebra_simps)
  have vd: "VerticalDistance (Val h) (Val c) (Val z) = Val (min \<bar>- (u + 1)\<bar> \<bar>1 - u\<bar>)"
    unfolding VerticalDistance_Val[OF assms(1)] b t ..
  have mask: "VerticalMask (Val h) (Val c) (Val z) = 1"
    using assms by (simp add: VerticalMask_def dge_def)
  have "EpanechnikovFunction (Val h) (Val c) (Val z) = Val (1 - u\<^sup>2)"
    unfolding EpanechnikovFunction_def vd mask using sq by simp
  then show ?thesis unfolding u_def .
qed

text \<open>
  In exact arithmetic and for a positive height, \<open>EpanechnikovFunction\<close> is 0 outside the
  band from the centre minus a quarter of the height to the centre plus half of it, and
  inside the band it is one minus the square of the distance to the band's midpoint divided
  by three eighths of the height.
\<close>

lemma exact_vertical_weight:
  assumes "0 < height"
  shows "((pointZ < centerZ - height / 4 \<or> centerZ + height / 2 < pointZ)
            \<longrightarrow> EpanechnikovFunction (Val height) (Val centerZ) (Val pointZ) = Val 0)
       \<and> (centerZ - height / 4 \<le> pointZ \<and> pointZ \<le> centerZ + height / 2
            \<longrightarrow> EpanechnikovFunction (Val height) (Val centerZ) (Val pointZ)
                  = Val (1 - ((pointZ - (centerZ + height / 8)) / (3 * height / 8))\<^sup>2)
              \<and> 0 \<le> 1 - ((pointZ - (centerZ + height / 8)) / (3 * height / 8))\<^sup>2
              \<and> 1 - ((pointZ - (centerZ + height / 8)) / (3 * height / 8))\<^sup>2 \<le> 1
              \<and> (1 - ((pointZ - (centerZ + height / 8)) / (3 * height / 8))\<^sup>2 = 1
                   \<longleftrightarrow> pointZ = centerZ + height / 8))
       \<and> EpanechnikovFunction (Val height) (Val centerZ) (Val (centerZ - height / 4)) = Val 0
       \<and> EpanechnikovFunction (Val height) (Val centerZ) (Val (centerZ + height / 2)) = Val 0
       \<and> EpanechnikovFunction (Val height) (Val centerZ) (Val (centerZ + height / 8)) = Val 1"
proof -
  have out: "(pointZ < centerZ - height / 4 \<or> centerZ + height / 2 < pointZ)
            \<longrightarrow> EpanechnikovFunction (Val height) (Val centerZ) (Val pointZ) = Val 0"
    using Epanechnikov_outside[OF assms] by blast
  have inside: "centerZ - height / 4 \<le> pointZ \<and> pointZ \<le> centerZ + height / 2
            \<longrightarrow> EpanechnikovFunction (Val height) (Val centerZ) (Val pointZ)
                  = Val (1 - ((pointZ - (centerZ + height / 8)) / (3 * height / 8))\<^sup>2)
              \<and> 0 \<le> 1 - ((pointZ - (centerZ + height / 8)) / (3 * height / 8))\<^sup>2
              \<and> 1 - ((pointZ - (centerZ + height / 8)) / (3 * height / 8))\<^sup>2 \<le> 1
              \<and> (1 - ((pointZ - (centerZ + height / 8)) / (3 * height / 8))\<^sup>2 = 1
                   \<longleftrightarrow> pointZ = centerZ + height / 8)"
  proof (intro impI, elim conjE)
    assume lo: "centerZ - height / 4 \<le> pointZ" and hi: "pointZ \<le> centerZ + height / 2"
    define u where "u = (pointZ - (centerZ + height / 8)) / (3 * height / 8)"
    have "- 1 \<le> u" "u \<le> 1"
      using assms lo hi unfolding u_def by (simp_all add: field_simps)
    then have "\<bar>u\<bar> \<le> 1" by simp
    then have "u\<^sup>2 \<le> 1" by (simp add: abs_square_le_1)
    moreover have "u = 0 \<longleftrightarrow> pointZ = centerZ + height / 8"
      using assms unfolding u_def by auto
    ultimately show "EpanechnikovFunction (Val height) (Val centerZ) (Val pointZ)
                  = Val (1 - ((pointZ - (centerZ + height / 8)) / (3 * height / 8))\<^sup>2)
              \<and> 0 \<le> 1 - ((pointZ - (centerZ + height / 8)) / (3 * height / 8))\<^sup>2
              \<and> 1 - ((pointZ - (centerZ + height / 8)) / (3 * height / 8))\<^sup>2 \<le> 1
              \<and> (1 - ((pointZ - (centerZ + height / 8)) / (3 * height / 8))\<^sup>2 = 1
                   \<longleftrightarrow> pointZ = centerZ + height / 8)"
      using Epanechnikov_inside[OF assms lo hi] unfolding u_def[symmetric] by simp
  qed
  have lo: "EpanechnikovFunction (Val height) (Val centerZ) (Val (centerZ - height / 4)) = Val 0"
    using Epanechnikov_inside[OF assms, of centerZ "centerZ - height / 4"] assms
    by (simp add: field_simps)
  have hi: "EpanechnikovFunction (Val height) (Val centerZ) (Val (centerZ + height / 2)) = Val 0"
    using Epanechnikov_inside[OF assms, of centerZ "centerZ + height / 2"] assms
    by (simp add: field_simps)
  have mid: "EpanechnikovFunction (Val height) (Val centerZ) (Val (centerZ + height / 8)) = Val 1"
    using Epanechnikov_inside[OF assms, of centerZ "centerZ + height / 8"] assms
    by (simp add: field_simps)
  show ?thesis using out inside lo hi mid by blast
qed

lemma GaussFunction_Val:
  "r \<noteq> 0 \<Longrightarrow> GaussFunction (Val r) (Val cx) (Val cy) (Val qx) (Val qy) =
     Val (exp (- 5 * (sqrt ((qx - cx)\<^sup>2 + (qy - cy)\<^sup>2) / r)\<^sup>2))"
  by (simp add: GaussFunction_def Let_def)

lemma calculateHorizontalWeight_Val:
  "r \<noteq> 0 \<Longrightarrow> calculateHorizontalWeight (Val qx) (Val qy) (Val r) (Val cx) (Val cy) =
     Val (exp (- 5 * (sqrt ((qx - cx)\<^sup>2 + (qy - cy)\<^sup>2) / r)\<^sup>2))"
  by (simp add: calculateHorizontalWeight_def gauss_def Let_def power2_commute)

lemma gauss_value_bounds:
  fixes r qx cx qy cy :: real
  assumes "r \<noteq> 0"
  shows "0 < exp (- 5 * (sqrt ((qx - cx)\<^sup>2 + (qy - cy)\<^sup>2) / r)\<^sup>2)
       \<and> exp (- 5 * (sqrt ((qx - cx)\<^sup>2 + (qy - cy)\<^sup>2) / r)\<^sup>2) \<le> 1
       \<and> (exp (- 5 * (sqrt ((qx - cx)\<^sup>2 + (qy - cy)\<^sup>2) / r)\<^sup>2) = 1
            \<longleftrightarrow> qx = cx \<and> qy = cy)"
proof -
  have "(sqrt ((qx - cx)\<^sup>2 + (qy - cy)\<^sup>2) / r)\<^sup>2 = 0 \<longleftrightarrow> (qx - cx)\<^sup>2 + (qy - cy)\<^sup>2 = 0"
    using assms by simp
  also have "\<dots> \<longleftrightarrow> qx = cx \<and> qy = cy"
    by simp
  finally show ?thesis by simp
qed

text \<open>
  In exact arithmetic and for a positive radius, \<open>GaussFunction\<close> and
  \<open>calculateHorizontalWeight\<close> both return the exponential of minus five times the square
  of the planar distance to the axis divided by the radius.
\<close>

lemma exact_horizontal_weight:
  assumes "0 < radius"
  shows "GaussFunction (Val radius) (Val centerX) (Val centerY) (Val pointX) (Val pointY)
           = Val (exp (- 5 * (sqrt ((pointX - centerX)\<^sup>2 + (pointY - centerY)\<^sup>2) / radius)\<^sup>2))
       \<and> calculateHorizontalWeight (Val pointX) (Val pointY) (Val radius) (Val centerX) (Val centerY)
           = Val (exp (- 5 * (sqrt ((pointX - centerX)\<^sup>2 + (pointY - centerY)\<^sup>2) / radius)\<^sup>2))
       \<and> 0 < exp (- 5 * (sqrt ((pointX - centerX)\<^sup>2 + (pointY - centerY)\<^sup>2) / radius)\<^sup>2)
       \<and> exp (- 5 * (sqrt ((pointX - centerX)\<^sup>2 + (pointY - centerY)\<^sup>2) / radius)\<^sup>2) \<le> 1
       \<and> (exp (- 5 * (sqrt ((pointX - centerX)\<^sup>2 + (pointY - centerY)\<^sup>2) / radius)\<^sup>2) = 1
            \<longleftrightarrow> pointX = centerX \<and> pointY = centerY)"
proof -
  have r: "radius \<noteq> 0" using assms by simp
  show ?thesis
    using GaussFunction_Val[OF r] calculateHorizontalWeight_Val[OF r] gauss_value_bounds[OF r]
    by blast
qed

section \<open>The per-seed loop: counter and last centroid\<close>

lemma do_while_counter_lower: "counter + 1 \<le> snd (do_while body continue maxIter counter old)"
proof (induction body continue maxIter counter old rule: do_while.induct)
  case (1 body continue maxIter counter old)
  show ?case
  proof (cases "continue (body old) old \<and> counter + 1 < maxIter")
    case True
    with 1 have "counter + 1 + 1 \<le> snd (do_while body continue maxIter (counter + 1) (body old))" by simp
    with True show ?thesis by (subst do_while.simps) simp
  next
    case False
    then show ?thesis by (subst do_while.simps) auto
  qed
qed

lemma do_while_counter_upper:
  "snd (do_while body continue maxIter counter old) \<le> max (counter + 1) maxIter"
proof (induction body continue maxIter counter old rule: do_while.induct)
  case (1 body continue maxIter counter old)
  show ?case
  proof (cases "continue (body old) old \<and> counter + 1 < maxIter")
    case True
    with 1 have "snd (do_while body continue maxIter (counter + 1) (body old)) \<le> max (counter + 1 + 1) maxIter" by simp
    with True show ?thesis by (subst do_while.simps) simp
  next
    case False
    then show ?thesis by (subst do_while.simps) auto
  qed
qed

lemma do_while_last_centroid:
  "fst (do_while body continue maxIter counter old)
     = (body ^^ nat (snd (do_while body continue maxIter counter old) - counter)) old"
proof (induction body continue maxIter counter old rule: do_while.induct)
  case (1 body continue maxIter counter old)
  show ?case
  proof (cases "continue (body old) old \<and> counter + 1 < maxIter")
    case True
    let ?r = "do_while body continue maxIter (counter + 1) (body old)"
    have eq: "do_while body continue maxIter counter old = ?r"
      using True by (subst do_while.simps) simp
    have lo: "counter + 1 + 1 \<le> snd ?r" by (rule do_while_counter_lower)
    have "nat (snd ?r - counter) = Suc (nat (snd ?r - (counter + 1)))" using lo by simp
    then have "(body ^^ nat (snd ?r - counter)) old = (body ^^ nat (snd ?r - (counter + 1))) (body old)"
      by (simp add: funpow_swap1)
    with 1 True show ?thesis unfolding eq by simp
  next
    case False
    then show ?thesis by (subst (1 2) do_while.simps) auto
  qed
qed

lemma do_while_repeats:
  "counter + 1 < snd (do_while body continue maxIter counter old)
     \<longleftrightarrow> continue (body old) old \<and> counter + 1 < maxIter"
proof (cases "continue (body old) old \<and> counter + 1 < maxIter")
  case True
  have "counter + 1 + 1 \<le> snd (do_while body continue maxIter (counter + 1) (body old))"
    by (rule do_while_counter_lower)
  with True show ?thesis by (subst do_while.simps) simp
next
  case False
  then show ?thesis by (subst do_while.simps) auto
qed

lemma do_while_fixed:
  assumes "body c = c" "continue c c"
  shows "do_while body continue maxIter counter c = (c, max (counter + 1) maxIter)"
  using assms
proof (induction body continue maxIter counter c rule: do_while.induct)
  case (1 body continue maxIter counter old)
  show ?case
  proof (cases "counter + 1 < maxIter")
    case True
    with 1 have "do_while body continue maxIter (counter + 1) (body old) = (body old, max (counter + 1 + 1) maxIter)" by simp
    with True 1(2,3) show ?thesis by (subst do_while.simps) (simp add: max_def)
  next
    case False
    with 1(2,3) show ?thesis by (subst do_while.simps) (simp add: max_def)
  qed
qed

lemma do_while_stops:
  assumes "\<not> continue (body c) c"
  shows "do_while body continue maxIter counter c = (body c, counter + 1)"
  using assms by (subst do_while.simps) simp

lemma funpow_fixed: "f c = c \<Longrightarrow> (f ^^ m) c = c"
  by (induction m) simp_all

section \<open>The result table\<close>

lemma fold_storeMode_aux:
  "length mx = n \<Longrightarrow> length my = n \<Longrightarrow> length mz = n \<Longrightarrow> k \<le> n \<Longrightarrow>
   fold (\<lambda>i. storeMode i (f i)) [0..<k] (mx, my, mz)
   = (map (\<lambda>i. if i < k then px (f i) else mx ! i) [0..<n],
      map (\<lambda>i. if i < k then py (f i) else my ! i) [0..<n],
      map (\<lambda>i. if i < k then pz (f i) else mz ! i) [0..<n])"
proof (induction k)
  case 0
  then show ?case by (auto intro: nth_equalityI)
next
  case (Suc k)
  obtain x y z where f: "f k = (x, y, z)" by (cases "f k")
  have upd: "\<And>g (m::double list) v. length m = n \<Longrightarrow>
      (map (\<lambda>i. if i < k then g i else m ! i) [0..<n])[k := v]
       = map (\<lambda>i. if i < Suc k then (if i = k then v else g i) else m ! i) [0..<n]"
    by (rule nth_equalityI) (auto simp: nth_list_update)
  show ?case using Suc f
    by (simp add: upd px_def py_def pz_def)
qed

lemma fold_storeMode:
  "fold (\<lambda>i. storeMode i (f i)) [0..<n] (newModes n)
   = (map (\<lambda>i. px (f i)) [0..<n], map (\<lambda>i. py (f i)) [0..<n], map (\<lambda>i. pz (f i)) [0..<n])"
  using fold_storeMode_aux[of "replicate n (Val 0)" n "replicate n (Val 0)" "replicate n (Val 0)" n f]
  by (simp add: newModes_def)

lemma point_eq: "(px p, py p, pz p) = p"
  by (simp add: px_def py_def pz_def)

lemma MeanShift_Classical_table:
  "MeanShift_Classical pc cd ch MaxIter uk =
     \<lparr>X = map px pc, Y = map py pc, Z = map pz pc,
      modeX = map (\<lambda>i. px (fst (seed_Classical pc cd ch MaxIter uk i))) [0..<length pc],
      modeY = map (\<lambda>i. py (fst (seed_Classical pc cd ch MaxIter uk i))) [0..<length pc],
      modeZ = map (\<lambda>i. pz (fst (seed_Classical pc cd ch MaxIter uk i))) [0..<length pc]\<rparr>"
  by (simp add: MeanShift_Classical_def Let_def fold_storeMode)

lemma meanShiftClassic_table:
  "meanShiftClassic pc cd ch maxN =
     \<lparr>X = map px pc, Y = map py pc, Z = map pz pc,
      modeX = map (\<lambda>i. px (fst (seed_Classic pc cd ch maxN i))) [0..<length pc],
      modeY = map (\<lambda>i. py (fst (seed_Classic pc cd ch maxN i))) [0..<length pc],
      modeZ = map (\<lambda>i. pz (fst (seed_Classic pc cd ch maxN i))) [0..<length pc]\<rparr>"
  by (simp add: meanShiftClassic_def Let_def fold_storeMode)

lemma meanShiftClassicImproved_table:
  "meanShiftClassicImproved pc cd ch maxN =
     \<lparr>X = map px pc, Y = map py pc, Z = map pz pc,
      modeX = map (\<lambda>i. px (fst (seed_Improved pc cd ch maxN i))) [0..<length pc],
      modeY = map (\<lambda>i. py (fst (seed_Improved pc cd ch maxN i))) [0..<length pc],
      modeZ = map (\<lambda>i. pz (fst (seed_Improved pc cd ch maxN i))) [0..<length pc]\<rparr>"
  by (simp add: meanShiftClassicImproved_def Let_def fold_storeMode)

lemma table_rows:
  assumes "df = \<lparr>X = map px pc, Y = map py pc, Z = map pz pc,
      modeX = map (\<lambda>i. px (f i)) [0..<length pc],
      modeY = map (\<lambda>i. py (f i)) [0..<length pc],
      modeZ = map (\<lambda>i. pz (f i)) [0..<length pc]\<rparr>"
  shows "length (X df) = length pc \<and> length (Y df) = length pc \<and> length (Z df) = length pc
       \<and> length (modeX df) = length pc \<and> length (modeY df) = length pc
       \<and> length (modeZ df) = length pc
       \<and> (\<forall>i<length pc. (X df ! i, Y df ! i, Z df ! i) = pc ! i
              \<and> (modeX df ! i, modeY df ! i, modeZ df ! i) = f i)"
  unfolding assms by (simp add: point_eq)

text \<open>
  C9. For a maximum of at least 1, the loop of every driver runs at least once and at most
  that many times: the counter it returns lies between 1 and the maximum. The centroid it
  returns is the one computed by its last iteration, whether the guard or the budget ended
  the loop, and the table a driver returns is made of the cloud and of these last centroids
  alone: the counter does not reach it, and no column tells a seed that ran out of budget
  from one whose kernel stopped moving.
\<close>

theorem C9_iteration_budget:
  assumes "1 \<le> maxIterations"
  shows "1 \<le> snd (seed_Classical pc cd ch maxIterations uk i)
       \<and> snd (seed_Classical pc cd ch maxIterations uk i) \<le> maxIterations
       \<and> fst (seed_Classical pc cd ch maxIterations uk i)
           = (iteration_Classical pc i cd ch uk
                ^^ nat (snd (seed_Classical pc cd ch maxIterations uk i))) (pc ! i)
       \<and> 1 \<le> snd (seed_Classic pc cd ch maxIterations i)
       \<and> snd (seed_Classic pc cd ch maxIterations i) \<le> maxIterations
       \<and> fst (seed_Classic pc cd ch maxIterations i)
           = (iteration_Classic pc cd ch ^^ nat (snd (seed_Classic pc cd ch maxIterations i))) (pc ! i)
       \<and> 1 \<le> snd (seed_Improved pc cd ch maxIterations i)
       \<and> snd (seed_Improved pc cd ch maxIterations i) \<le> maxIterations
       \<and> fst (seed_Improved pc cd ch maxIterations i)
           = (iteration_Improved pc cd ch ^^ nat (snd (seed_Improved pc cd ch maxIterations i))) (pc ! i)
       \<and> MeanShift_Classical pc cd ch maxIterations uk =
           \<lparr>X = map px pc, Y = map py pc, Z = map pz pc,
            modeX = map (\<lambda>i. px (fst (seed_Classical pc cd ch maxIterations uk i))) [0..<length pc],
            modeY = map (\<lambda>i. py (fst (seed_Classical pc cd ch maxIterations uk i))) [0..<length pc],
            modeZ = map (\<lambda>i. pz (fst (seed_Classical pc cd ch maxIterations uk i))) [0..<length pc]\<rparr>
       \<and> meanShiftClassic pc cd ch maxIterations =
           \<lparr>X = map px pc, Y = map py pc, Z = map pz pc,
            modeX = map (\<lambda>i. px (fst (seed_Classic pc cd ch maxIterations i))) [0..<length pc],
            modeY = map (\<lambda>i. py (fst (seed_Classic pc cd ch maxIterations i))) [0..<length pc],
            modeZ = map (\<lambda>i. pz (fst (seed_Classic pc cd ch maxIterations i))) [0..<length pc]\<rparr>
       \<and> meanShiftClassicImproved pc cd ch maxIterations =
           \<lparr>X = map px pc, Y = map py pc, Z = map pz pc,
            modeX = map (\<lambda>i. px (fst (seed_Improved pc cd ch maxIterations i))) [0..<length pc],
            modeY = map (\<lambda>i. py (fst (seed_Improved pc cd ch maxIterations i))) [0..<length pc],
            modeZ = map (\<lambda>i. pz (fst (seed_Improved pc cd ch maxIterations i))) [0..<length pc]\<rparr>"
proof -
  have bounds: "1 \<le> snd (do_while body continue maxIterations 0 c)
       \<and> snd (do_while body continue maxIterations 0 c) \<le> maxIterations
       \<and> fst (do_while body continue maxIterations 0 c)
           = (body ^^ nat (snd (do_while body continue maxIterations 0 c))) c"
    for body continue c
    using do_while_counter_lower[of 0 body continue maxIterations c]
      do_while_counter_upper[of body continue maxIterations 0 c]
      do_while_last_centroid[of body continue maxIterations 0 c] assms
    by simp
  show ?thesis
    unfolding seed_Classical_def seed_Classic_def seed_Improved_def
    using bounds[of "iteration_Classical pc i cd ch uk" continue_Classical "pc ! i"]
      bounds[of "iteration_Classic pc cd ch" continue_Euclidean "pc ! i"]
      bounds[of "iteration_Improved pc cd ch" continue_Euclidean "pc ! i"]
      MeanShift_Classical_table[of pc cd ch maxIterations uk, unfolded seed_Classical_def]
      meanShiftClassic_table[of pc cd ch maxIterations, unfolded seed_Classic_def]
      meanShiftClassicImproved_table[of pc cd ch maxIterations, unfolded seed_Improved_def]
    by blast
qed

theorem C9_iteration_budget_witness:
  "(1::int) \<le> 200
   \<and> snd (seed_Classical [(Val 0, Val 0, Val 10)] (Val 0.6) (Val 0.5) 200 False 0) \<le> 200
   \<and> snd (seed_Classic [(Val 0, Val 0, Val 10)] (Val 0.6) (Val 0.5) 200 0) \<le> 200
   \<and> snd (seed_Improved [(Val 0, Val 0, Val 10)] (Val 0.6) (Val 0.5) 200 0) \<le> 200"
  using C9_iteration_budget[of 200 "[(Val 0, Val 0, Val 10)]" "Val 0.6" "Val 0.5" False 0]
  by simp

text \<open>
  C10. The table every driver returns has one row per input point: each of its six columns
  has the length of the cloud, row \<open>i\<close> of the columns X, Y and Z holds the coordinates of
  input point \<open>i\<close> unchanged, and row \<open>i\<close> of the three mode columns holds the centroid
  that the loop started at point \<open>i\<close> returns.
\<close>

theorem C10_result_table:
  "(let df = MeanShift_Classical pc cd ch maxIterations uk in
      length (X df) = length pc \<and> length (Y df) = length pc \<and> length (Z df) = length pc
       \<and> length (modeX df) = length pc \<and> length (modeY df) = length pc
       \<and> length (modeZ df) = length pc
       \<and> (\<forall>i<length pc. (X df ! i, Y df ! i, Z df ! i) = pc ! i
              \<and> (modeX df ! i, modeY df ! i, modeZ df ! i)
                  = fst (seed_Classical pc cd ch maxIterations uk i)))
   \<and> (let df = meanShiftClassic pc cd ch maxIterations in
      length (X df) = length pc \<and> length (Y df) = length pc \<and> length (Z df) = length pc
       \<and> length (modeX df) = length pc \<and> length (modeY df) = length pc
       \<and> length (modeZ df) = length pc
       \<and> (\<forall>i<length pc. (X df ! i, Y df ! i, Z df ! i) = pc ! i
              \<and> (modeX df ! i, modeY df ! i, modeZ df ! i)
                  = fst (seed_Classic pc cd ch maxIterations i)))
   \<and> (let df = meanShiftClassicImproved pc cd ch maxIterations in
      length (X df) = length pc \<and> length (Y df) = length pc \<and> length (Z df) = length pc
       \<and> length (modeX df) = length pc \<and> length (modeY df) = length pc
       \<and> length (modeZ df) = length pc
       \<and> (\<forall>i<length pc. (X df ! i, Y df ! i, Z df ! i) = pc ! i
              \<and> (modeX df ! i, modeY df ! i, modeZ df ! i)
                  = fst (seed_Improved pc cd ch maxIterations i)))"
  unfolding Let_def
  using table_rows[OF MeanShift_Classical_table[of pc cd ch maxIterations uk]]
    table_rows[OF meanShiftClassic_table[of pc cd ch maxIterations]]
    table_rows[OF meanShiftClassicImproved_table[of pc cd ch maxIterations]]
  by blast

theorem C10_result_table_witness:
  "(1::nat) < length [(Val 0, Val 0, Val 10), (Val 1, Val 0, Val 12)]
   \<and> (X (meanShiftClassic [(Val 0, Val 0, Val 10), (Val 1, Val 0, Val 12)] (Val 0.6) (Val 0.5) 200) ! 1,
       Y (meanShiftClassic [(Val 0, Val 0, Val 10), (Val 1, Val 0, Val 12)] (Val 0.6) (Val 0.5) 200) ! 1,
       Z (meanShiftClassic [(Val 0, Val 0, Val 10), (Val 1, Val 0, Val 12)] (Val 0.6) (Val 0.5) 200) ! 1)
      = (Val 1, Val 0, Val 12)
   \<and> length (modeX (meanShiftClassicImproved [(Val 0, Val 0, Val 10), (Val 1, Val 0, Val 12)]
                      (Val 0.6) (Val 0.5) 200)) = 2
   \<and> modeX (MeanShift_Classical [(Val 0, Val 0, Val 10), (Val 1, Val 0, Val 12)] (Val 0.6) (Val 0.5) 200 False) ! 1
      = fst (fst (seed_Classical [(Val 0, Val 0, Val 10), (Val 1, Val 0, Val 12)] (Val 0.6) (Val 0.5) 200 False 1))"
proof -
  have one: "(1::nat) < length [(Val 0, Val 0, Val 10), (Val 1, Val 0, Val 12)]" by simp
  note t = C10_result_table[of "[(Val 0, Val 0, Val 10), (Val 1, Val 0, Val 12)]" "Val 0.6" "Val 0.5" 200 False,
      unfolded Let_def]
  have a: "(X (meanShiftClassic [(Val 0, Val 0, Val 10), (Val 1, Val 0, Val 12)] (Val 0.6) (Val 0.5) 200) ! 1,
       Y (meanShiftClassic [(Val 0, Val 0, Val 10), (Val 1, Val 0, Val 12)] (Val 0.6) (Val 0.5) 200) ! 1,
       Z (meanShiftClassic [(Val 0, Val 0, Val 10), (Val 1, Val 0, Val 12)] (Val 0.6) (Val 0.5) 200) ! 1)
      = [(Val 0, Val 0, Val 10), (Val 1, Val 0, Val 12)] ! 1"
    using t one by blast
  have b: "length (modeX (meanShiftClassicImproved [(Val 0, Val 0, Val 10), (Val 1, Val 0, Val 12)]
                      (Val 0.6) (Val 0.5) 200)) = length [(Val 0, Val 0, Val 10), (Val 1, Val 0, Val 12)]"
    using t by blast
  have c: "(modeX (MeanShift_Classical [(Val 0, Val 0, Val 10), (Val 1, Val 0, Val 12)] (Val 0.6) (Val 0.5) 200 False) ! 1,
            modeY (MeanShift_Classical [(Val 0, Val 0, Val 10), (Val 1, Val 0, Val 12)] (Val 0.6) (Val 0.5) 200 False) ! 1,
            modeZ (MeanShift_Classical [(Val 0, Val 0, Val 10), (Val 1, Val 0, Val 12)] (Val 0.6) (Val 0.5) 200 False) ! 1)
      = fst (seed_Classical [(Val 0, Val 0, Val 10), (Val 1, Val 0, Val 12)] (Val 0.6) (Val 0.5) 200 False 1)"
    using t one by blast
  have c': "modeX (MeanShift_Classical [(Val 0, Val 0, Val 10), (Val 1, Val 0, Val 12)] (Val 0.6) (Val 0.5) 200 False) ! 1
      = fst (fst (seed_Classical [(Val 0, Val 0, Val 10), (Val 1, Val 0, Val 12)] (Val 0.6) (Val 0.5) 200 False 1))"
    using arg_cong[OF c, of fst] by simp
  show ?thesis using one a b c' by simp
qed

section \<open>A seed of positive height in MeanShift\_Classical\<close>

lemma positiveHeight_cases:
  assumes "positiveHeight p"
  obtains x y z where "p = (Val x, Val y, Val z)" "0 < z"
proof -
  obtain a b c where p: "p = (a, b, c)" by (cases p)
  with assms show thesis
    by (cases a; cases b; cases c) (auto intro: that)
qed

lemma fold_const_accumulate:
  assumes "\<And>s1 s2 s3 s4. g (Val s1, Val s2, Val s3, Val s4) = (Val (s1 + d1), Val (s2 + d2), Val (s3 + d3), Val (s4 + d4))"
  shows "fold (\<lambda>j. g) [0..<n] (Val s1, Val s2, Val s3, Val s4)
    = (Val (s1 + real n * d1), Val (s2 + real n * d2), Val (s3 + real n * d3), Val (s4 + real n * d4))"
proof (induction n)
  case 0
  show ?case by simp
next
  case (Suc n)
  then show ?case by (simp add: assms algebra_simps)
qed

lemma Epanechnikov_at_center:
  assumes "0 < h"
  shows "EpanechnikovFunction (Val h) (Val z) (Val z) = Val (8 / 9)"
proof -
  have "1 - ((z - (z + h / 8)) / (3 * h / 8))\<^sup>2 = 8 / 9"
    using assms by (simp add: power2_eq_square field_simps)
  then show ?thesis using Epanechnikov_inside[of h z z] assms by simp
qed

lemma GaussFunction_at_center:
  assumes "r \<noteq> 0"
  shows "GaussFunction (Val r) (Val x) (Val y) (Val x) (Val y) = Val 1"
  using GaussFunction_Val[OF assms, of x y x y] by simp

lemma InCylinder_center:
  assumes "0 \<le> h"
  shows "InCylinder (Val x) (Val y) (Val z) (Val r) (Val h) (Val x) (Val y) (Val z)"
  using assms by (simp add: InCylinder_def dge_def)

lemma neighbor_Classical_seed:
  assumes "0 < r" "0 < h"
  shows "neighbor_Classical UniformKernel (Val r) (Val h) (Val x, Val y, Val z) (Val x, Val y, Val z)
           (Val s1, Val s2, Val s3, Val s4)
         = (let w = (if UniformKernel then 1 else 8 / 9)
            in (Val (s1 + w * x), Val (s2 + w * y), Val (s3 + w * z), Val (s4 + w)))"
proof -
  have inC: "InCylinder (Val x) (Val y) (Val z) (Val r) (Val h) (Val x) (Val y) (Val z)"
    using assms by (simp add: InCylinder_center)
  have g: "GaussFunction (Val r) (Val x) (Val y) (Val x) (Val y) = Val 1"
    using assms by (simp add: GaussFunction_at_center)
  show ?thesis using inC g Epanechnikov_at_center[OF assms(2), of z] by (simp add: Let_def)
qed

lemma scan_Classical_seed:
  assumes "0 < r" "0 < h"
  shows "scan_Classical pc i UniformKernel (Val r) (Val h) (Val x, Val y, Val z) = 
     (if pc ! i = (Val x, Val y, Val z) then
         (let w = (if UniformKernel then 1 else 8 / 9); n = real (length pc)
          in (Val (n * (w * x)), Val (n * (w * y)), Val (n * (w * z)), Val (n * w)))
      else scan_Classical pc i UniformKernel (Val r) (Val h) (Val x, Val y, Val z))"
proof (cases "pc ! i = (Val x, Val y, Val z)")
  case True
  show ?thesis unfolding scan_Classical_def True
    using fold_const_accumulate[where g = "neighbor_Classical UniformKernel (Val r) (Val h) (Val x, Val y, Val z) (Val x, Val y, Val z)"
        and ?s1.0 = 0 and ?s2.0 = 0 and ?s3.0 = 0 and ?s4.0 = 0 and n = "length pc",
        OF neighbor_Classical_seed[OF assms, unfolded Let_def]]
    by (simp add: Let_def)
next
  case False
  then show ?thesis by simp
qed

lemma iteration_Classical_seed:
  assumes "0 < cd" "0 < ch" "0 < z" "pc ! i = (Val x, Val y, Val z)" "pc \<noteq> []"
  shows "iteration_Classical pc i (Val cd) (Val ch) UniformKernel (Val x, Val y, Val z) = (Val x, Val y, Val z)"
proof -
  have r: "0 < cd * z * 0.5" and h: "0 < ch * z" using assms by simp_all
  have n: "real (length pc) \<noteq> 0" using assms(5) by simp
  show ?thesis
    using scan_Classical_seed[OF r h, of pc i UniformKernel x y z] assms(4) n
    by (simp add: Let_def)
qed

lemma seed_Classical_fixed:
  assumes "list_all positiveHeight pc" "0 < cd" "0 < ch" "i < length pc"
  shows "seed_Classical pc (Val cd) (Val ch) MaxIter UniformKernel i = (pc ! i, max 1 MaxIter)"
proof -
  have "positiveHeight (pc ! i)" using assms(1,4) by (simp add: list_all_length)
  then obtain x y z where p: "pc ! i = (Val x, Val y, Val z)" and z: "0 < z"
    by (rule positiveHeight_cases)
  have ne: "pc \<noteq> []" using assms(4) by auto
  have fixd: "iteration_Classical pc i (Val cd) (Val ch) UniformKernel (pc ! i) = pc ! i"
    using iteration_Classical_seed[OF assms(2,3) z p ne] p by simp
  have cont: "continue_Classical (pc ! i) (pc ! i)" unfolding p by simp
  show ?thesis
    unfolding seed_Classical_def
    using do_while_fixed[of "iteration_Classical pc i (Val cd) (Val ch) UniformKernel" "pc ! i"
        continue_Classical MaxIter 0] fixd cont
    by simp
qed

section \<open>The guards\<close>

text \<open>
  C2. In \<^verbatim>\<open>MeanShift_Classical\<close> the body of the loop runs again after an iteration exactly
  when the new centroid differs from the old one by less than 0.01 on each of the three
  axes and the counter, already incremented, is below \<^verbatim>\<open>MaxIter\<close>. So the loop goes on
  while the centroid has stopped moving, and a centroid that moved by 0.01 or more on some
  axis ends it. On numbers the comparison is the one between reals; a not-a-number
  coordinate makes it false.
\<close>

theorem C2_Classical_guard:
  assumes "iteration_Classical pc i CD2TH_fac CH2TH_fac UniformKernel (oldX, oldY, oldZ)
             = (centroidX, centroidY, centroidZ)"
  shows "(counter + 1 < snd (do_while (iteration_Classical pc i CD2TH_fac CH2TH_fac UniformKernel)
                              continue_Classical MaxIter counter (oldX, oldY, oldZ))
          \<longleftrightarrow> dless (dabs (dsub centroidX oldX)) (Val 0.01)
              \<and> dless (dabs (dsub centroidY oldY)) (Val 0.01)
              \<and> dless (dabs (dsub centroidZ oldZ)) (Val 0.01)
              \<and> counter + 1 < MaxIter)
       \<and> (dless (dabs (dsub (Val a) (Val b))) (Val 0.01) \<longleftrightarrow> \<bar>a - b\<bar> < 0.01)
       \<and> \<not> dless (dabs (dsub NaN oldCoordinate)) (Val 0.01)"
  unfolding do_while_repeats assms by simp

theorem C2_Classical_guard_witness:
  "iteration_Classical [(Val 0, Val 0, Val 10)] 0 (Val 0.6) (Val 0.5) False (Val 0, Val 0, Val 10)
     = (Val 0, Val 0, Val 10)
   \<and> 1 < snd (do_while (iteration_Classical [(Val 0, Val 0, Val 10)] 0 (Val 0.6) (Val 0.5) False)
               continue_Classical 200 0 (Val 0, Val 0, Val 10))"
proof -
  have it: "iteration_Classical [(Val 0, Val 0, Val 10)] 0 (Val 0.6) (Val 0.5) False (Val 0, Val 0, Val 10)
     = (Val 0, Val 0, Val 10)"
    using iteration_Classical_seed[of "0.6" "0.5" 10 "[(Val 0, Val 0, Val 10)]" 0 0 0 False] by simp
  show ?thesis using it C2_Classical_guard[OF it, of 0 200 0 0 NaN] by simp
qed





section \<open>The scan against the specification\<close>

lemma fold_rows: "fold (\<lambda>j. f (xs ! j)) [0..<length xs] acc = fold f xs acc"
proof -
  have "fold (\<lambda>j. f (xs ! j)) [0..<length xs] acc = fold f (map ((!) xs) [0..<length xs]) acc"
    by (simp add: fold_map comp_def)
  then show ?thesis by (simp add: map_nth)
qed

lemma fold_weighted:
  assumes "\<And>p sx sy sz sp. g p (sx, sy, sz, sp) =
      (if inside p then (dadd sx (dmul (w p) (px p)), dadd sy (dmul (w p) (py p)),
                         dadd sz (dmul (w p) (pz p)), dadd sp (w p))
       else (sx, sy, sz, sp))"
  shows "fold g ps (sx, sy, sz, sp) =
     (foldl dadd sx (map (\<lambda>p. dmul (w p) (px p)) (filter inside ps)),
      foldl dadd sy (map (\<lambda>p. dmul (w p) (py p)) (filter inside ps)),
      foldl dadd sz (map (\<lambda>p. dmul (w p) (pz p)) (filter inside ps)),
      foldl dadd sp (map w (filter inside ps)))"
  by (induction ps arbitrary: sx sy sz sp) (simp_all add: assms)

lemma scan_Classic_spec:
  "scan_Classic pointCloud radius height (centroidX, centroidY, centroidZ) =
     spec_weightedSums
       (\<lambda>p. InCylinder (px p) (py p) (pz p) radius height centroidX centroidY centroidZ)
       (\<lambda>p. dmul (EpanechnikovFunction height centroidZ (pz p))
                   (GaussFunction radius centroidX centroidY (px p) (py p)))
       pointCloud"
  unfolding scan_Classic_def spec_weightedSums_def Let_def fold_rows
  by (rule fold_weighted) (auto simp: px_def py_def pz_def Let_def)

lemma scan_Improved_spec:
  "scan_Improved pointCloud cylinderRadius cylinderHeight cylinderMiddleZ (centroidX, centroidY, centroidZ) =
     spec_weightedSums
       (\<lambda>p. intersectsCylinder (px p) (py p) (pz p) cylinderRadius cylinderHeight centroidX centroidY cylinderMiddleZ)
       (\<lambda>p. dmul (calculateVerticalWeight (pz p) cylinderMiddleZ cylinderHeight)
                   (calculateHorizontalWeight (px p) (py p) cylinderRadius centroidX centroidY))
       pointCloud"
  unfolding scan_Improved_def spec_weightedSums_def Let_def fold_rows
  by (rule fold_weighted) (auto simp: px_def py_def pz_def Let_def)

lemma dmul_one: "dmul (Val 1) d = d"
  by (cases d) (simp_all add: signedInf_def)

lemma fold_seed_copies: "fold (\<lambda>j. f c) [0..<n] acc = fold f (replicate n c) acc"
proof -
  have "fold (\<lambda>j. f c) [0..<n] acc = fold f (map (\<lambda>j. c) [0..<n]) acc"
    by (simp add: fold_map comp_def)
  then show ?thesis by (simp add: map_replicate_const)
qed

lemma scan_Classical_copies:
  "scan_Classical pc i UniformKernel radius height (centroidX, centroidY, centroidZ) =
     spec_weightedSums
       (\<lambda>p. InCylinder (px p) (py p) (pz p) radius height centroidX centroidY centroidZ)
       (\<lambda>p. if UniformKernel then Val 1
             else dmul (EpanechnikovFunction height centroidZ (pz p))
                       (GaussFunction radius centroidX centroidY (px p) (py p)))
       (replicate (length pc) (pc ! i))"
  unfolding scan_Classical_def spec_weightedSums_def Let_def fold_seed_copies
  by (rule fold_weighted) (auto simp: px_def py_def pz_def Let_def dmul_one)

text \<open>
  C1. The claim is that the scan of every driver adds, for each point of the cloud inside
  the cylinder, that point's weight and its weight times its own coordinates. The lemmas
  above show this for \<^verbatim>\<open>meanShiftClassic\<close> and \<^verbatim>\<open>meanShiftClassicImproved\<close>, and show that
  \<^verbatim>\<open>MeanShift_Classical\<close> instead scans as many copies of the seed as the cloud has points.
  On the cloud (0, 0, 10), (1, 0, 10) with ratios 0.6 and 0.5, seed 0 and the uniform kernel,
  the first scan of \<^verbatim>\<open>MeanShift_Classical\<close> sums the x coordinates to 0, where the points
  inside the cylinder have the x coordinates 0 and 1, which sum to 1; the scan of
  \<^verbatim>\<open>meanShiftClassic\<close> on the same cloud agrees with the specification.
\<close>

theorem C1_Classical_scan_reads_seed:
  "scan_Classical [(Val 0, Val 0, Val 10), (Val 1, Val 0, Val 10)] 0 True
       (dmul (dmul (Val 0.6) (Val 10)) (Val 0.5)) (dmul (Val 0.5) (Val 10)) (Val 0, Val 0, Val 10)
     = (Val 0, Val 0, Val 20, Val 2)
   \<and> spec_weightedSums
        (\<lambda>p. InCylinder (px p) (py p) (pz p) (dmul (dmul (Val 0.6) (Val 10)) (Val 0.5))
                (dmul (Val 0.5) (Val 10)) (Val 0) (Val 0) (Val 10))
        (\<lambda>p. Val 1) [(Val 0, Val 0, Val 10), (Val 1, Val 0, Val 10)]
     = (Val 1, Val 0, Val 20, Val 2)
   \<and> scan_Classic [(Val 0, Val 0, Val 10), (Val 1, Val 0, Val 10)]
       (dmul (dmul (Val 0.6) (Val 10)) (Val 0.5)) (dmul (Val 0.5) (Val 10)) (Val 0, Val 0, Val 10)
     = spec_weightedSums
        (\<lambda>p. InCylinder (px p) (py p) (pz p) (dmul (dmul (Val 0.6) (Val 10)) (Val 0.5))
                (dmul (Val 0.5) (Val 10)) (Val 0) (Val 0) (Val 10))
        (\<lambda>p. dmul (EpanechnikovFunction (dmul (Val 0.5) (Val 10)) (Val 10) (pz p))
                   (GaussFunction (dmul (dmul (Val 0.6) (Val 10)) (Val 0.5)) (Val 0) (Val 0) (px p) (py p)))
        [(Val 0, Val 0, Val 10), (Val 1, Val 0, Val 10)]"
proof -
  have two: "[0..<2] = [0, 1]" by (simp add: upt_rec)
  have a: "scan_Classical [(Val 0, Val 0, Val 10), (Val 1, Val 0, Val 10)] 0 True
       (dmul (dmul (Val 0.6) (Val 10)) (Val 0.5)) (dmul (Val 0.5) (Val 10)) (Val 0, Val 0, Val 10)
     = (Val 0, Val 0, Val 20, Val 2)"
    by (simp add: scan_Classical_def two InCylinder_def dge_def)
  have b: "spec_weightedSums
        (\<lambda>p. InCylinder (px p) (py p) (pz p) (dmul (dmul (Val 0.6) (Val 10)) (Val 0.5))
                (dmul (Val 0.5) (Val 10)) (Val 0) (Val 0) (Val 10))
        (\<lambda>p. Val 1) [(Val 0, Val 0, Val 10), (Val 1, Val 0, Val 10)]
     = (Val 1, Val 0, Val 20, Val 2)"
    by (simp add: spec_weightedSums_def InCylinder_def dge_def px_def py_def pz_def)
  show ?thesis using a b scan_Classic_spec by simp
qed

section \<open>Clouds of positive height in MeanShift\_Classical\<close>

text \<open>
  In exact arithmetic, on a cloud of numbers whose heights are all positive and with
  positive numbers for the two ratios, every scan of \<^verbatim>\<open>MeanShift_Classical\<close> has a positive
  weight sum and every iteration started at a seed returns the seed. This does not settle
  C3, which says that the program returns exactly the seed: the program divides a rounded
  sum of rounded products by a rounded weight sum, and the quotient need not be the seed
  (in binary64 the sum of three times 0.1, divided by 3, is not 0.1).
\<close>

lemma exact_Classical_centroid_never_moves:
  assumes "list_all positiveHeight pc" "0 < CD2TH_fac" "0 < CH2TH_fac"
  shows "(\<forall>i<length pc.
            (\<exists>sump. snd (snd (snd (scan_Classical pc i UniformKernel
                        (dmul (dmul (Val CD2TH_fac) (pz (pc ! i))) (Val 0.5))
                        (dmul (Val CH2TH_fac) (pz (pc ! i))) (pc ! i)))) = Val sump \<and> 0 < sump)
            \<and> iteration_Classical pc i (Val CD2TH_fac) (Val CH2TH_fac) UniformKernel (pc ! i) = pc ! i
            \<and> (\<forall>m. (iteration_Classical pc i (Val CD2TH_fac) (Val CH2TH_fac) UniformKernel ^^ m) (pc ! i)
                     = pc ! i)
            \<and> fst (seed_Classical pc (Val CD2TH_fac) (Val CH2TH_fac) MaxIter UniformKernel i) = pc ! i)
       \<and> modeX (MeanShift_Classical pc (Val CD2TH_fac) (Val CH2TH_fac) MaxIter UniformKernel) = map px pc
       \<and> modeY (MeanShift_Classical pc (Val CD2TH_fac) (Val CH2TH_fac) MaxIter UniformKernel) = map py pc
       \<and> modeZ (MeanShift_Classical pc (Val CD2TH_fac) (Val CH2TH_fac) MaxIter UniformKernel) = map pz pc"
proof -
  have seed: "seed_Classical pc (Val CD2TH_fac) (Val CH2TH_fac) MaxIter UniformKernel i = (pc ! i, max 1 MaxIter)"
    if "i < length pc" for i
    using seed_Classical_fixed[OF assms that] .
  have per: "(\<exists>sump. snd (snd (snd (scan_Classical pc i UniformKernel
                        (dmul (dmul (Val CD2TH_fac) (pz (pc ! i))) (Val 0.5))
                        (dmul (Val CH2TH_fac) (pz (pc ! i))) (pc ! i)))) = Val sump \<and> 0 < sump)
            \<and> iteration_Classical pc i (Val CD2TH_fac) (Val CH2TH_fac) UniformKernel (pc ! i) = pc ! i
            \<and> (\<forall>m. (iteration_Classical pc i (Val CD2TH_fac) (Val CH2TH_fac) UniformKernel ^^ m) (pc ! i)
                     = pc ! i)
            \<and> fst (seed_Classical pc (Val CD2TH_fac) (Val CH2TH_fac) MaxIter UniformKernel i) = pc ! i"
    if i: "i < length pc" for i
  proof -
    have "positiveHeight (pc ! i)" using assms(1) i by (simp add: list_all_length)
    then obtain x y z where p: "pc ! i = (Val x, Val y, Val z)" and z: "0 < z"
      by (rule positiveHeight_cases)
    have ne: "pc \<noteq> []" using i by (cases pc) simp_all
    have r: "0 < CD2TH_fac * z * 0.5" and h: "0 < CH2TH_fac * z" using assms z by simp_all
    have n: "0 < real (length pc)" using ne by simp
    have "snd (snd (snd (scan_Classical pc i UniformKernel (Val (CD2TH_fac * z * 0.5))
              (Val (CH2TH_fac * z)) (Val x, Val y, Val z))))
            = Val (real (length pc) * (if UniformKernel then 1 else 8 / 9))"
      using scan_Classical_seed[OF r h, of pc i UniformKernel x y z] p by (simp add: Let_def)
    moreover have "0 < real (length pc) * (if UniformKernel then 1 else 8 / 9)"
      using n by simp
    ultimately have s: "\<exists>sump. snd (snd (snd (scan_Classical pc i UniformKernel
                        (dmul (dmul (Val CD2TH_fac) (pz (pc ! i))) (Val 0.5))
                        (dmul (Val CH2TH_fac) (pz (pc ! i))) (pc ! i)))) = Val sump \<and> 0 < sump"
      unfolding p by (simp add: pz_def)
    have it: "iteration_Classical pc i (Val CD2TH_fac) (Val CH2TH_fac) UniformKernel (pc ! i) = pc ! i"
      using iteration_Classical_seed[OF assms(2,3) z p ne] p by simp
    have pw: "(iteration_Classical pc i (Val CD2TH_fac) (Val CH2TH_fac) UniformKernel ^^ m) (pc ! i)
                = pc ! i" for m
      using it by (rule funpow_fixed)
    show ?thesis using s it pw seed[OF i] by simp
  qed
  have cols: "map (\<lambda>i. f (fst (seed_Classical pc (Val CD2TH_fac) (Val CH2TH_fac) MaxIter UniformKernel i)))
                [0..<length pc] = map f pc" for f :: "point \<Rightarrow> double"
    by (rule nth_equalityI) (simp_all add: seed)
  show ?thesis using per by (simp add: MeanShift_Classical_table cols)
qed

section \<open>Clouds of one point\<close>

lemma seed_Classic_single:
  assumes "0 < cd" "0 < ch" "0 < z"
  shows "seed_Classic [(Val x, Val y, Val z)] (Val cd) (Val ch) maxN 0 = ((Val x, Val y, Val z), 1)"
proof -
  have r: "cd * z * 0.5 \<noteq> 0" and h: "0 < ch * z" using assms by simp_all
  have sc: "scan_Classic [(Val x, Val y, Val z)] (Val (cd * z * 0.5)) (Val (ch * z)) (Val x, Val y, Val z)
      = (Val (8 / 9 * x), Val (8 / 9 * y), Val (8 / 9 * z), Val (8 / 9))"
    using InCylinder_center[of "ch * z" x y z "cd * z * 0.5"] h
      Epanechnikov_at_center[OF h, of z] GaussFunction_at_center[OF r, of x y]
    by (simp add: scan_Classic_def Let_def)
  have it: "iteration_Classic [(Val x, Val y, Val z)] (Val cd) (Val ch) (Val x, Val y, Val z) = (Val x, Val y, Val z)"
    using sc by (simp add: Let_def)
  have stop: "\<not> continue_Euclidean (Val x, Val y, Val z) (Val x, Val y, Val z)"
    by (simp add: continue_Euclidean_def dgt_def)
  show ?thesis unfolding seed_Classic_def
    using do_while_stops[of continue_Euclidean "iteration_Classic [(Val x, Val y, Val z)] (Val cd) (Val ch)" "(Val x, Val y, Val z)" maxN 0]
      it stop by simp
qed

lemma seed_Improved_single:
  assumes "0 < cd" "0 < ch" "0 < z"
  shows "seed_Improved [(Val x, Val y, Val z)] (Val cd) (Val ch) maxN 0 = ((Val x, Val y, Val z), 1)"
proof -
  define r where "r = cd * z * 0.5"
  define h where "h = ch * z * 0.75"
  have r: "r \<noteq> 0" and h: "0 < h" using assms unfolding r_def h_def by simp_all
  have ic: "intersectsCylinder (Val x) (Val y) (Val z) (Val r) (Val h) (Val x) (Val y) (Val (z + h * 1 / 6))"
    using h by (simp add: intersectsCylinder_def Let_def)
  have "(\<bar>z + h * 1 / 6 - z\<bar> / (h * 0.5))\<^sup>2 = 1 / 9"
    using h by (simp add: power2_eq_square field_simps)
  then have vw: "calculateVerticalWeight (Val z) (Val (z + h * 1 / 6)) (Val h) = Val (8 / 9)"
    using h by (simp add: calculateVerticalWeight_def epanechnikov_def Let_def)
  have hw: "calculateHorizontalWeight (Val x) (Val y) (Val r) (Val x) (Val y) = Val 1"
    using calculateHorizontalWeight_Val[OF r, of x y x y] by simp
  have sc: "scan_Improved [(Val x, Val y, Val z)] (Val r) (Val h) (Val (z + h * 1 / 6)) (Val x, Val y, Val z)
      = (Val (8 / 9 * x), Val (8 / 9 * y), Val (8 / 9 * z), Val (8 / 9))"
    using ic vw hw by (simp add: scan_Improved_def Let_def)
  have it: "iteration_Improved [(Val x, Val y, Val z)] (Val cd) (Val ch) (Val x, Val y, Val z) = (Val x, Val y, Val z)"
    using sc unfolding r_def h_def by (simp add: Let_def)
  have stop: "\<not> continue_Euclidean (Val x, Val y, Val z) (Val x, Val y, Val z)"
    by (simp add: continue_Euclidean_def dgt_def)
  show ?thesis unfolding seed_Improved_def
    using do_while_stops[of continue_Euclidean "iteration_Improved [(Val x, Val y, Val z)] (Val cd) (Val ch)" "(Val x, Val y, Val z)" maxN 0]
      it stop by simp
qed

text \<open>
  C5. The claim is that on a cloud of one point of positive height every driver runs one
  iteration and returns the point. \<^verbatim>\<open>meanShiftClassic\<close> and \<^verbatim>\<open>meanShiftClassicImproved\<close> do
  (the two lemmas above). \<^verbatim>\<open>MeanShift_Classical\<close> returns the point too, but its guard
  repeats the body while the centroid stands still: on the cloud (0, 0, 10) with ratios 0.6
  and 0.5 and a maximum of 200 it runs 200 iterations, the other two drivers run 1.
\<close>

theorem C5_Classical_single_point_runs_to_budget:
  "seed_Classical [(Val 0, Val 0, Val 10)] (Val 0.6) (Val 0.5) 200 False 0
      = ((Val 0, Val 0, Val 10), 200)
   \<and> seed_Classic [(Val 0, Val 0, Val 10)] (Val 0.6) (Val 0.5) 200 0 = ((Val 0, Val 0, Val 10), 1)
   \<and> seed_Improved [(Val 0, Val 0, Val 10)] (Val 0.6) (Val 0.5) 200 0 = ((Val 0, Val 0, Val 10), 1)"
  using seed_Classical_fixed[of "[(Val 0, Val 0, Val 10)]" "0.6" "0.5" 0 200 False]
    seed_Classic_single[of "0.6" "0.5" 10 0 0 200] seed_Improved_single[of "0.6" "0.5" 10 0 0 200]
  by simp

end
